theory Spec2Isabelle
  imports Complex_Main
begin

section \<open>Python strings\<close>

text \<open>
  A Python \<open>str\<close> is a sequence of Unicode code points. It is modelled as the list of its
  code points, so that the length of a string and the whitespace test of \<open>str.split\<close>
  are the ones of Python. A literal of the source is written \<open>str_lit ''...''\<close>.
\<close>

type_synonym pystr = "nat list"

definition str_lit :: "string \<Rightarrow> pystr" where
  "str_lit s = map of_char s"

text \<open>
  The code points that \<open>str.split()\<close> and \<open>str.isspace()\<close> treat as whitespace:
  U+0009..U+000D, U+001C..U+001F, U+0020, U+0085, U+00A0, U+1680, U+2000..U+200A,
  U+2028, U+2029, U+202F, U+205F and U+3000.
\<close>

definition py_isspace :: "nat \<Rightarrow> bool" where
  "py_isspace c =
     ((9 \<le> c \<and> c \<le> 13) \<or> (28 \<le> c \<and> c \<le> 32) \<or> c = 133 \<or> c = 160 \<or> c = 5760
      \<or> (8192 \<le> c \<and> c \<le> 8202) \<or> c = 8232 \<or> c = 8233 \<or> c = 8239 \<or> c = 8287
      \<or> c = 12288)"

text \<open>
  \<open>prompt.split()\<close> with no separator: skip a run of whitespace, stop at the end of the
  string, otherwise take the following run of non-whitespace code points as a word and go
  on behind it.
\<close>

function split_ws :: "pystr \<Rightarrow> pystr list" where
  "split_ws s =
     (case dropWhile py_isspace s of
        [] \<Rightarrow> []
      | c # cs \<Rightarrow>
          (c # takeWhile (\<lambda>x. \<not> py_isspace x) cs)
            # split_ws (dropWhile (\<lambda>x. \<not> py_isspace x) cs))"
  by pat_completeness auto
termination
proof (relation "measure length")
  show "wf (measure length)" by simp
next
  fix s :: pystr and c cs
  assume "dropWhile py_isspace s = c # cs"
  then have "length cs < length s"
    using length_dropWhile_le [of py_isspace s] by simp
  moreover have "length (dropWhile (\<lambda>x. \<not> py_isspace x) cs) \<le> length cs"
    by (rule length_dropWhile_le)
  ultimately show "(dropWhile (\<lambda>x. \<not> py_isspace x) cs, s) \<in> measure length"
    by simp
qed

declare split_ws.simps [simp del]

text \<open>
  The whitespace-delimited word count in the words of the specification: the number of
  positions at which a word begins, that is a non-whitespace code point at the start of
  the text or right after a whitespace code point. The flag says whether the previous
  code point was whitespace (or there was none).
\<close>

fun word_starts :: "bool \<Rightarrow> pystr \<Rightarrow> nat" where
  "word_starts after_space [] = 0"
| "word_starts after_space (c # cs) =
     (if \<not> py_isspace c \<and> after_space then 1 else 0) + word_starts (py_isspace c) cs"

definition word_count :: "pystr \<Rightarrow> nat" where
  "word_count s = word_starts True s"

text \<open>Python's \<open>int(x)\<close> on a float truncates towards zero.\<close>

definition py_int :: "real \<Rightarrow> int" where
  "py_int x = (if 0 \<le> x then \<lfloor>x\<rfloor> else \<lceil>x\<rceil>)"

text \<open>The decimal rendering of an integer inside an f-string.\<close>

fun str_nat :: "nat \<Rightarrow> pystr" where
  "str_nat n = (if n < 10 then [48 + n] else str_nat (n div 10) @ [48 + n mod 10])"

declare str_nat.simps [simp del]

definition str_int :: "int \<Rightarrow> pystr" where
  "str_int i = (if i < 0 then 45 # str_nat (nat (- i)) else str_nat (nat i))"

section \<open>Data model\<close>

datatype ModelProvider = LOCAL_PHI4 | LOCAL_MISTRAL | GROQ_LLAMA70B | GROQ_LLAMA8B

definition provider_value :: "ModelProvider \<Rightarrow> pystr" where
  "provider_value p =
     (case p of
        LOCAL_PHI4 \<Rightarrow> str_lit ''local_phi4mini''
      | LOCAL_MISTRAL \<Rightarrow> str_lit ''local_mistral7b''
      | GROQ_LLAMA70B \<Rightarrow> str_lit ''groq_llama70b''
      | GROQ_LLAMA8B \<Rightarrow> str_lit ''groq_llama8b'')"

text \<open>
  A float of the source is modelled as the real number it denotes. The router only
  compares the literals 0.2, 0.5 and 0.8 and the load with the literals 0.4 to 0.8, and
  rounding a decimal literal to a double keeps that order. Where the code subtracts or
  multiplies floats, the model applies the double-precision operations of the platform,
  which are taken as parameters (see \<open>environment\<close>): nothing is assumed about their
  rounding.
\<close>

record InferenceRequest =
  prompt :: pystr
  max_tokens :: int
  temperature :: real
  user_id :: pystr
  tier :: pystr

record InferenceResult =
  content :: pystr
  model_used :: ModelProvider
  latency_ms :: real
  tokens_in :: int
  tokens_out :: int
  cost_eur :: real
  data_location :: pystr
  request_id :: pystr

record CostAwareRouter =
  local_load :: real

section \<open>CostAwareRouter\<close>

definition analyze_complexity :: "pystr \<Rightarrow> real" where
  "analyze_complexity p =
     (let tokens = length (split_ws p)
      in if tokens < 50 then 0.2 else if tokens < 200 then 0.5 else 0.8)"

definition route :: "CostAwareRouter \<Rightarrow> InferenceRequest \<Rightarrow> ModelProvider" where
  "route self request =
     (let complexity = analyze_complexity (prompt request) in
      if tier request = str_lit ''enterprise'' then
        (if complexity > 0.6 then GROQ_LLAMA70B else LOCAL_MISTRAL)
      else if tier request = str_lit ''premium'' then
        (if complexity > 0.7 then GROQ_LLAMA70B
         else if complexity > 0.4 then LOCAL_MISTRAL
         else LOCAL_PHI4)
      else if local_load self < 0.8 then
        (if complexity > 0.5 then LOCAL_MISTRAL else LOCAL_PHI4)
      else GROQ_LLAMA8B)"

section \<open>Providers and their environment\<close>

text \<open>
  What a call can raise. \<open>RuntimeError\<close> is raised by the engine itself when the cloud
  client is missing; \<open>AttributeError\<close>, \<open>KeyError\<close> and \<open>IndexError\<close> come from reading
  an attribute that was never set, a model table without the provider, and a response
  without choices; the last three are the failures of the client library (no connection,
  timeout, an error status of the backend). All of them are subclasses of \<open>Exception\<close>.
\<close>

datatype py_exception =
    RuntimeError pystr
  | AttributeError
  | KeyError
  | IndexError
  | APIConnectionError
  | APITimeoutError
  | APIStatusError int

record client =
  base_url :: pystr
  api_key :: pystr

text \<open>
  An attribute of \<open>self\<close>: never assigned (reading it raises \<open>AttributeError\<close>), assigned
  \<open>None\<close>, or assigned an object.
\<close>

datatype 'a attribute = Unset | PyNone | Obj 'a

text \<open>
  The part of a chat completion that the engine reads: the message contents of the
  choices, and the usage block with \<open>prompt_tokens\<close> and \<open>completion_tokens\<close>.
\<close>

record chat_response =
  choices :: "pystr list"
  usage :: "(int \<times> int) option"

text \<open>
  The world outside the engine: what \<open>chat.completions.create\<close> answers for a client, a
  model name, the user message, the temperature and \<open>max_tokens\<close>, the clock readings
  taken during one dispatch, and the subtraction and multiplication of doubles
  (\<open>a - b\<close> and \<open>a * b\<close> on Python floats, rounded as the platform rounds them).
\<close>

record environment =
  create :: "client \<Rightarrow> pystr \<Rightarrow> pystr \<Rightarrow> real \<Rightarrow> int \<Rightarrow> py_exception + chat_response"
  perf_counter_start :: real
  perf_counter_end :: real
  time_time :: real
  float_sub :: "real \<Rightarrow> real \<Rightarrow> real"
  float_mul :: "real \<Rightarrow> real \<Rightarrow> real"

text \<open>What the process finds at startup.\<close>

record startup =
  openai_importable :: bool
  GROQ_API_KEY :: pystr

record InferenceEngine =
  router :: CostAwareRouter
  local_client :: "client attribute"
  groq_client :: "client attribute"

section \<open>InferenceEngine\<close>

definition router_init :: CostAwareRouter where
  "router_init = \<lparr>local_load = 0\<rparr>"

text \<open>
  \<open>_init_providers\<close>: a failing import is caught and logged, and leaves both clients
  unset; otherwise the local client is built, and the cloud client only when the key is
  not empty.
\<close>

definition init_providers :: "startup \<Rightarrow> InferenceEngine \<Rightarrow> InferenceEngine" where
  "init_providers su self =
     (if \<not> openai_importable su then self
      else
        self\<lparr>local_client :=
               Obj \<lparr>base_url = str_lit ''http://localhost:11434/v1'',
                    api_key = str_lit ''ollama''\<rparr>,
             groq_client :=
               (let groq_key = GROQ_API_KEY su in
                if groq_key \<noteq> [] then
                  Obj \<lparr>base_url = str_lit ''https://api.groq.com/openai/v1'',
                       api_key = groq_key\<rparr>
                else PyNone)\<rparr>)"

definition engine_init :: "startup \<Rightarrow> InferenceEngine" where
  "engine_init su =
     init_providers su \<lparr>router = router_init, local_client = Unset, groq_client = Unset\<rparr>"

definition local_model_map :: "ModelProvider \<rightharpoonup> pystr" where
  "local_model_map =
     [LOCAL_PHI4 \<mapsto> str_lit ''phi4-mini'',
      LOCAL_MISTRAL \<mapsto> str_lit ''mistral:7b-instruct-q4_K_M'']"

definition cloud_model_map :: "ModelProvider \<rightharpoonup> pystr" where
  "cloud_model_map =
     [GROQ_LLAMA70B \<mapsto> str_lit ''llama-3.3-70b-versatile'',
      GROQ_LLAMA8B \<mapsto> str_lit ''llama-3.1-8b-instant'']"

text \<open>
  Building the result from a response: \<open>choices[0]\<close> is read first and raises
  \<open>IndexError\<close> on an empty list, then the usage block, which raises \<open>AttributeError\<close>
  when it is \<open>None\<close>.
\<close>

definition infer_local ::
  "environment \<Rightarrow> InferenceEngine \<Rightarrow> InferenceRequest \<Rightarrow> ModelProvider
     \<Rightarrow> py_exception + InferenceResult" where
  "infer_local env self request provider =
     (case local_model_map provider of
        None \<Rightarrow> Inl KeyError
      | Some model \<Rightarrow>
          (case local_client self of
             Unset \<Rightarrow> Inl AttributeError
           | PyNone \<Rightarrow> Inl AttributeError
           | Obj c \<Rightarrow>
               (case create env c model (prompt request) (temperature request)
                       (max_tokens request) of
                  Inl e \<Rightarrow> Inl e
                | Inr response \<Rightarrow>
                    (case choices response of
                       [] \<Rightarrow> Inl IndexError
                     | message # _ \<Rightarrow>
                         (case usage response of
                            None \<Rightarrow> Inl AttributeError
                          | Some (prompt_tokens, completion_tokens) \<Rightarrow>
                              Inr \<lparr>content = message,
                                   model_used = provider,
                                   latency_ms = 0,
                                   tokens_in = prompt_tokens,
                                   tokens_out = completion_tokens,
                                   cost_eur = 0,
                                   data_location = str_lit ''on-premise'',
                                   request_id =
                                     str_lit ''req_''
                                       @ str_int (py_int (float_mul env (time_time env) 1000))\<rparr>)))))"

definition infer_cloud ::
  "environment \<Rightarrow> InferenceEngine \<Rightarrow> InferenceRequest \<Rightarrow> ModelProvider
     \<Rightarrow> py_exception + InferenceResult" where
  "infer_cloud env self request provider =
     (case groq_client self of
        Unset \<Rightarrow> Inl AttributeError
      | PyNone \<Rightarrow> Inl (RuntimeError (str_lit ''Groq client not initialized''))
      | Obj c \<Rightarrow>
          (case cloud_model_map provider of
             None \<Rightarrow> Inl KeyError
           | Some model \<Rightarrow>
               (case create env c model (prompt request) (temperature request)
                       (max_tokens request) of
                  Inl e \<Rightarrow> Inl e
                | Inr response \<Rightarrow>
                    (case choices response of
                       [] \<Rightarrow> Inl IndexError
                     | message # _ \<Rightarrow>
                         (case usage response of
                            None \<Rightarrow> Inl AttributeError
                          | Some (prompt_tokens, completion_tokens) \<Rightarrow>
                              Inr \<lparr>content = message,
                                   model_used = provider,
                                   latency_ms = 0,
                                   tokens_in = prompt_tokens,
                                   tokens_out = completion_tokens,
                                   cost_eur = 0,
                                   data_location = str_lit ''cloud-us'',
                                   request_id =
                                     str_lit ''req_''
                                       @ str_int (py_int (float_mul env (time_time env) 1000))\<rparr>)))))"

definition fallback_infer :: "environment \<Rightarrow> InferenceRequest \<Rightarrow> InferenceResult" where
  "fallback_infer env request =
     \<lparr>content = str_lit ''[Service temporarily unavailable - please retry]'',
      model_used = LOCAL_PHI4,
      latency_ms = 0,
      tokens_in = 0,
      tokens_out = 0,
      cost_eur = 0,
      data_location = str_lit ''on-premise'',
      request_id = str_lit ''fallback_'' @ str_int (py_int (time_time env))\<rparr>"

text \<open>
  The provider call of \<open>infer\<close>, the body of its \<open>try\<close> up to the call's return.
\<close>

definition invoke ::
  "environment \<Rightarrow> InferenceEngine \<Rightarrow> InferenceRequest \<Rightarrow> ModelProvider
     \<Rightarrow> py_exception + InferenceResult" where
  "invoke env self request model_provider =
     (if model_provider \<in> set [LOCAL_PHI4, LOCAL_MISTRAL]
      then infer_local env self request model_provider
      else infer_cloud env self request model_provider)"

text \<open>
  \<open>(time.perf_counter() - start) * 1000\<close>, in the double arithmetic of the platform.
\<close>

definition elapsed_ms :: "environment \<Rightarrow> real \<Rightarrow> real" where
  "elapsed_ms env start = float_mul env (float_sub env (perf_counter_end env) start) 1000"

text \<open>
  \<open>infer\<close> returns \<open>Inr\<close> a result or \<open>Inl\<close> an exception that leaves the method. Every
  exception of the provider call is caught by \<open>except Exception\<close> and answered with the
  fallback result.
\<close>

definition infer ::
  "environment \<Rightarrow> InferenceEngine \<Rightarrow> InferenceRequest \<Rightarrow> py_exception + InferenceResult" where
  "infer env self request =
     (let model_provider = route (router self) request;
          start = perf_counter_start env
      in case invoke env self request model_provider of
           Inr result \<Rightarrow>
             Inr (result\<lparr>latency_ms := elapsed_ms env start\<rparr>)
         | Inl e \<Rightarrow> Inr (fallback_infer env request))"

section \<open>Base cost\<close>



section \<open>One dispatch as a state machine\<close>

text \<open>
  The same method, statement by statement, with the engine object carried along: the
  request is received, routed (line 160), the timestamp is taken and the \<open>try\<close> entered,
  the provider is invoked, and the dispatch ends with the provider's result or with the
  fallback result. No statement of \<open>infer\<close>, \<open>route\<close>, \<open>_infer_local\<close>, \<open>_infer_cloud\<close>
  or \<open>_fallback_infer\<close> assigns to a field of the engine or of its router.
\<close>

datatype dispatch_phase =
    Received
  | Routed ModelProvider
  | Invoking ModelProvider
  | Succeeded InferenceResult
  | Degraded InferenceResult

type_synonym config = "InferenceEngine \<times> dispatch_phase"

fun step :: "environment \<Rightarrow> InferenceRequest \<Rightarrow> config \<Rightarrow> config option" where
  "step env request (self, Received) = Some (self, Routed (route (router self) request))"
| "step env request (self, Routed p) = Some (self, Invoking p)"
| "step env request (self, Invoking p) =
     (case invoke env self request p of
        Inr result \<Rightarrow>
          Some (self, Succeeded
            (result\<lparr>latency_ms := elapsed_ms env (perf_counter_start env)\<rparr>))
      | Inl e \<Rightarrow> Some (self, Degraded (fallback_infer env request)))"
| "step env request (self, Succeeded r) = None"
| "step env request (self, Degraded r) = None"

fun trace_from :: "nat \<Rightarrow> environment \<Rightarrow> InferenceRequest \<Rightarrow> config \<Rightarrow> config list" where
  "trace_from 0 env request c = [c]"
| "trace_from (Suc n) env request c =
     c # (case step env request c of None \<Rightarrow> [] | Some c' \<Rightarrow> trace_from n env request c')"

definition infer_trace ::
  "environment \<Rightarrow> InferenceEngine \<Rightarrow> InferenceRequest \<Rightarrow> config list" where
  "infer_trace env self request = trace_from 3 env request (self, Received)"

definition is_local :: "ModelProvider \<Rightarrow> bool" where
  "is_local p = (p = LOCAL_PHI4 \<or> p = LOCAL_MISTRAL)"

section \<open>Sample inputs\<close>

text \<open>A prompt of \<open>n\<close> words, each the letter w followed by a space.\<close>

definition sample_prompt :: "nat \<Rightarrow> pystr" where
  "sample_prompt n = concat (replicate n (str_lit ''w ''))"

definition sample_request :: "pystr \<Rightarrow> nat \<Rightarrow> InferenceRequest" where
  "sample_request t n =
     \<lparr>prompt = sample_prompt n, max_tokens = 1024, temperature = 0.1,
      user_id = str_lit ''anonymous'', tier = t\<rparr>"

definition sample_router :: "real \<Rightarrow> CostAwareRouter" where
  "sample_router l = \<lparr>local_load = l\<rparr>"

text \<open>
  A backend that answers every call with the text pong, 12 prompt tokens and 34 completion
  tokens, and a backend that fails every call with a given exception. The clock readings
  are 1 and 1.25 for the performance counter and 0 for the wall clock; the difference
  0.25 and the products 250 and 0 are doubles, so that the double operations return them
  exactly, as the exact operations of these samples do.
\<close>

definition ok_env :: environment where
  "ok_env =
     \<lparr>create = (\<lambda>c model message temp n.
                  Inr \<lparr>choices = [str_lit ''pong''], usage = Some (12, 34)\<rparr>),
      perf_counter_start = 1, perf_counter_end = 1.25, time_time = 0,
      float_sub = (\<lambda>a b. a - b), float_mul = (\<lambda>a b. a * b)\<rparr>"

definition failing_env :: "py_exception \<Rightarrow> environment" where
  "failing_env e =
     \<lparr>create = (\<lambda>c model message temp n. Inl e),
      perf_counter_start = 1, perf_counter_end = 1.25, time_time = 0,
      float_sub = (\<lambda>a b. a - b), float_mul = (\<lambda>a b. a * b)\<rparr>"

text \<open>
  Three startups: with a cloud key, without one, and without the client library.
\<close>

definition full_startup :: startup where
  "full_startup = \<lparr>openai_importable = True, GROQ_API_KEY = str_lit ''gsk_key''\<rparr>"

definition local_only_startup :: startup where
  "local_only_startup = \<lparr>openai_importable = True, GROQ_API_KEY = []\<rparr>"

definition broken_startup :: startup where
  "broken_startup = \<lparr>openai_importable = False, GROQ_API_KEY = []\<rparr>"

text \<open>Requests that a validating engine would reject.\<close>

definition zero_tokens_request :: InferenceRequest where
  "zero_tokens_request =
     \<lparr>prompt = str_lit ''hi'', max_tokens = 0, temperature = 0.1,
      user_id = str_lit ''anonymous'', tier = str_lit ''standard''\<rparr>"

definition empty_prompt_request :: InferenceRequest where
  "empty_prompt_request =
     \<lparr>prompt = [], max_tokens = 10, temperature = 0.1,
      user_id = str_lit ''anonymous'', tier = str_lit ''standard''\<rparr>"

definition unknown_tier_request :: InferenceRequest where
  "unknown_tier_request =
     \<lparr>prompt = str_lit ''hi'', max_tokens = 10, temperature = 0.1,
      user_id = str_lit ''anonymous'', tier = str_lit ''gold''\<rparr>"

definition full_engine :: InferenceEngine where
  "full_engine = engine_init full_startup"

definition local_only_engine :: InferenceEngine where
  "local_only_engine = engine_init local_only_startup"

definition small_request :: InferenceRequest where
  "small_request = sample_request (str_lit ''standard'') 3"

definition large_request :: InferenceRequest where
  "large_request = sample_request (str_lit ''enterprise'') 200"

text \<open>
  What the answering backend makes of a request: the result of a local and of a cloud
  call for a given provider, request identifier \<open>req_0\<close> at time 0.
\<close>

definition sample_result :: "ModelProvider \<Rightarrow> real \<Rightarrow> pystr \<Rightarrow> InferenceResult" where
  "sample_result p ms loc =
     \<lparr>content = str_lit ''pong'', model_used = p, latency_ms = ms, tokens_in = 12,
      tokens_out = 34, cost_eur = 0, data_location = loc, request_id = str_lit ''req_0''\<rparr>"

section \<open>Word splitting\<close>

lemma split_ws_unfold:
  "split_ws s =
     (case dropWhile py_isspace s of
        [] \<Rightarrow> []
      | c # cs \<Rightarrow>
          (c # takeWhile (\<lambda>x. \<not> py_isspace x) cs)
            # split_ws (dropWhile (\<lambda>x. \<not> py_isspace x) cs))"
  by (rule split_ws.simps)

lemma split_ws_Nil: "split_ws [] = []"
  by (simp add: split_ws_unfold [of "[]"])

lemma split_ws_space: "py_isspace c \<Longrightarrow> split_ws (c # cs) = split_ws cs"
  by (simp add: split_ws_unfold [of "c # cs"] split_ws_unfold [of cs])

lemma split_ws_word:
  "\<not> py_isspace c \<Longrightarrow>
     split_ws (c # cs)
       = (c # takeWhile (\<lambda>x. \<not> py_isspace x) cs)
           # split_ws (dropWhile (\<lambda>x. \<not> py_isspace x) cs)"
  by (simp add: split_ws_unfold [of "c # cs"])

lemma split_ws_example:
  "split_ws (str_lit ''  What is   HIPAA? '')
     = [str_lit ''What'', str_lit ''is'', str_lit ''HIPAA?'']"
  by (simp add: split_ws_Nil split_ws_space split_ws_word str_lit_def py_isspace_def)

text \<open>Every word of the split is a non-empty run of non-whitespace code points.\<close>

lemma split_ws_words:
  "w \<in> set (split_ws s) \<Longrightarrow> w \<noteq> [] \<and> (\<forall>c \<in> set w. \<not> py_isspace c)"
proof (induction s arbitrary: w rule: split_ws.induct)
  case (1 s)
  show ?case
  proof (cases "dropWhile py_isspace s")
    case Nil
    have "split_ws s = []"
      unfolding split_ws_unfold [of s] Nil by simp
    with "1.prems" show ?thesis by simp
  next
    case (Cons c cs)
    then have c: "\<not> py_isspace c"
      using hd_dropWhile [of py_isspace s] by auto
    let ?word = "c # takeWhile (\<lambda>x. \<not> py_isspace x) cs"
    let ?rest = "dropWhile (\<lambda>x. \<not> py_isspace x) cs"
    have "split_ws s = ?word # split_ws ?rest"
      unfolding split_ws_unfold [of s] Cons by simp
    with "1.prems" consider "w = ?word" | "w \<in> set (split_ws ?rest)"
      by auto
    then show ?thesis
    proof cases
      case 1
      with c show ?thesis
        by (auto dest: set_takeWhileD)
    next
      case 2
      then show ?thesis
        by (rule "1.IH" [OF Cons])
    qed
  qed
qed

lemma word_starts_skip_spaces:
  "word_starts True s = word_starts True (dropWhile py_isspace s)"
  by (induction s) simp_all

lemma word_starts_skip_word:
  "word_starts False s = word_starts False (dropWhile (\<lambda>x. \<not> py_isspace x) s)"
  by (induction s) simp_all

lemma word_starts_False_True:
  "word_starts False (dropWhile (\<lambda>x. \<not> py_isspace x) s)
     = word_starts True (dropWhile (\<lambda>x. \<not> py_isspace x) s)"
proof (cases "dropWhile (\<lambda>x. \<not> py_isspace x) s")
  case Nil
  show ?thesis unfolding Nil by simp
next
  case (Cons c cs)
  then have "py_isspace c"
    using hd_dropWhile [of "\<lambda>x. \<not> py_isspace x" s] by auto
  with Cons show ?thesis by simp
qed

lemma length_split_ws: "length (split_ws s) = word_count s"
proof (induction s rule: split_ws.induct)
  case (1 s)
  show ?case
  proof (cases "dropWhile py_isspace s")
    case Nil
    have "word_count s = word_starts True (dropWhile py_isspace s)"
      unfolding word_count_def by (rule word_starts_skip_spaces)
    also have "\<dots> = 0"
      unfolding Nil by simp
    finally have "word_count s = 0" .
    moreover have "split_ws s = []"
      unfolding split_ws_unfold [of s] Nil by simp
    ultimately show ?thesis by simp
  next
    case (Cons c cs)
    then have c: "\<not> py_isspace c"
      using hd_dropWhile [of py_isspace s] by auto
    let ?rest = "dropWhile (\<lambda>x. \<not> py_isspace x) cs"
    have IH: "length (split_ws ?rest) = word_count ?rest"
      using "1.IH" [OF Cons] .
    have "word_count s = word_starts True (c # cs)"
      using word_starts_skip_spaces [of s] Cons by (simp add: word_count_def)
    also have "\<dots> = 1 + word_starts False cs"
      using c by simp
    also have "\<dots> = 1 + word_starts True ?rest"
      using word_starts_skip_word [of cs] word_starts_False_True [of cs] by simp
    finally have "word_count s = 1 + word_count ?rest"
      by (simp add: word_count_def)
    moreover have "length (split_ws s) = 1 + length (split_ws ?rest)"
      unfolding split_ws_unfold [of s] Cons by simp
    ultimately show ?thesis using IH by simp
  qed
qed

lemma word_count_sample_prompt: "word_count (sample_prompt n) = n"
proof -
  have "word_starts True (sample_prompt n) = n"
    by (induction n) (simp_all add: sample_prompt_def str_lit_def py_isspace_def)
  then show ?thesis by (simp add: word_count_def)
qed

section \<open>Complexity estimate\<close>

text \<open>
  C4. For every prompt the complexity estimate is a function of the prompt alone, a step
  function of its whitespace-delimited word count: fewer than 50 words give 0.2, 50 to
  199 words give 0.5, 200 words or more give 0.8, and the score lies between 0 and 1.
\<close>

theorem analyze_complexity_step_function:
  "(word_count p < 50 \<longrightarrow> analyze_complexity p = 0.2)
   \<and> (50 \<le> word_count p \<and> word_count p < 200 \<longrightarrow> analyze_complexity p = 0.5)
   \<and> (200 \<le> word_count p \<longrightarrow> analyze_complexity p = 0.8)
   \<and> 0 \<le> analyze_complexity p \<and> analyze_complexity p \<le> 1"
  by (simp add: analyze_complexity_def length_split_ws Let_def)

theorem analyze_complexity_step_function_witness:
  "word_count (sample_prompt 49) < 50 \<and> analyze_complexity (sample_prompt 49) = 0.2
   \<and> 50 \<le> word_count (sample_prompt 50) \<and> word_count (sample_prompt 50) < 200
   \<and> analyze_complexity (sample_prompt 50) = 0.5
   \<and> 50 \<le> word_count (sample_prompt 199) \<and> word_count (sample_prompt 199) < 200
   \<and> analyze_complexity (sample_prompt 199) = 0.5
   \<and> 200 \<le> word_count (sample_prompt 200) \<and> analyze_complexity (sample_prompt 200) = 0.8"
  using analyze_complexity_step_function [of "sample_prompt 49"]
    analyze_complexity_step_function [of "sample_prompt 50"]
    analyze_complexity_step_function [of "sample_prompt 199"]
    analyze_complexity_step_function [of "sample_prompt 200"]
  by (simp add: word_count_sample_prompt)

section \<open>Routing\<close>

lemma tier_literals:
  "str_lit ''enterprise'' \<noteq> str_lit ''premium''"
  "str_lit ''standard'' \<noteq> str_lit ''enterprise''"
  "str_lit ''standard'' \<noteq> str_lit ''premium''"
  "str_lit ''gold'' \<noteq> str_lit ''enterprise''"
  "str_lit ''gold'' \<noteq> str_lit ''premium''"
  by (simp_all add: str_lit_def)

text \<open>
  C1. For every request and every load, the routing decision follows the tier table, the
  complexity being the estimate of the request's prompt: enterprise with complexity above
  0.6 goes to GROQ_LLAMA70B and otherwise to LOCAL_MISTRAL; premium with complexity above
  0.7 goes to GROQ_LLAMA70B, with complexity above 0.4 and at most 0.7 to LOCAL_MISTRAL,
  and otherwise to LOCAL_PHI4; every other tier string with load below 0.8 goes to
  LOCAL_MISTRAL when the complexity is above 0.5 and to LOCAL_PHI4 otherwise, and with
  load 0.8 or more to GROQ_LLAMA8B.
\<close>

theorem route_decision_table:
  fixes self :: CostAwareRouter and request :: InferenceRequest
  defines "c \<equiv> analyze_complexity (prompt request)"
    and "t \<equiv> tier request" and "l \<equiv> local_load self"
  shows
    "(t = str_lit ''enterprise'' \<and> c > 0.6 \<longrightarrow> route self request = GROQ_LLAMA70B)
     \<and> (t = str_lit ''enterprise'' \<and> \<not> c > 0.6 \<longrightarrow> route self request = LOCAL_MISTRAL)
     \<and> (t = str_lit ''premium'' \<and> c > 0.7 \<longrightarrow> route self request = GROQ_LLAMA70B)
     \<and> (t = str_lit ''premium'' \<and> 0.4 < c \<and> c \<le> 0.7 \<longrightarrow> route self request = LOCAL_MISTRAL)
     \<and> (t = str_lit ''premium'' \<and> c \<le> 0.4 \<longrightarrow> route self request = LOCAL_PHI4)
     \<and> (t \<noteq> str_lit ''enterprise'' \<and> t \<noteq> str_lit ''premium'' \<and> l < 0.8 \<and> c > 0.5
          \<longrightarrow> route self request = LOCAL_MISTRAL)
     \<and> (t \<noteq> str_lit ''enterprise'' \<and> t \<noteq> str_lit ''premium'' \<and> l < 0.8 \<and> \<not> c > 0.5
          \<longrightarrow> route self request = LOCAL_PHI4)
     \<and> (t \<noteq> str_lit ''enterprise'' \<and> t \<noteq> str_lit ''premium'' \<and> l \<ge> 0.8
          \<longrightarrow> route self request = GROQ_LLAMA8B)"
  unfolding c_def t_def l_def
  by (simp add: route_def Let_def tier_literals tier_literals [symmetric])

theorem route_decision_table_witness:
  "analyze_complexity (prompt (sample_request (str_lit ''enterprise'') 200)) > 0.6
   \<and> route (sample_router 0) (sample_request (str_lit ''enterprise'') 200) = GROQ_LLAMA70B
   \<and> \<not> analyze_complexity (prompt (sample_request (str_lit ''enterprise'') 199)) > 0.6
   \<and> route (sample_router 0) (sample_request (str_lit ''enterprise'') 199) = LOCAL_MISTRAL
   \<and> analyze_complexity (prompt (sample_request (str_lit ''premium'') 200)) > 0.7
   \<and> route (sample_router 0) (sample_request (str_lit ''premium'') 200) = GROQ_LLAMA70B
   \<and> 0.4 < analyze_complexity (prompt (sample_request (str_lit ''premium'') 50))
   \<and> analyze_complexity (prompt (sample_request (str_lit ''premium'') 50)) \<le> 0.7
   \<and> route (sample_router 0) (sample_request (str_lit ''premium'') 50) = LOCAL_MISTRAL
   \<and> analyze_complexity (prompt (sample_request (str_lit ''premium'') 49)) \<le> 0.4
   \<and> route (sample_router 0) (sample_request (str_lit ''premium'') 49) = LOCAL_PHI4
   \<and> local_load (sample_router 0.5) < 0.8
   \<and> analyze_complexity (prompt (sample_request (str_lit ''standard'') 200)) > 0.5
   \<and> route (sample_router 0.5) (sample_request (str_lit ''standard'') 200) = LOCAL_MISTRAL
   \<and> \<not> analyze_complexity (prompt (sample_request (str_lit ''gold'') 50)) > 0.5
   \<and> route (sample_router 0.5) (sample_request (str_lit ''gold'') 50) = LOCAL_PHI4
   \<and> local_load (sample_router 0.8) \<ge> 0.8
   \<and> route (sample_router 0.8) (sample_request (str_lit ''standard'') 3) = GROQ_LLAMA8B"
  using
    route_decision_table
      [where self = "sample_router 0" and request = "sample_request (str_lit ''enterprise'') 200"]
    route_decision_table
      [where self = "sample_router 0" and request = "sample_request (str_lit ''enterprise'') 199"]
    route_decision_table
      [where self = "sample_router 0" and request = "sample_request (str_lit ''premium'') 200"]
    route_decision_table
      [where self = "sample_router 0" and request = "sample_request (str_lit ''premium'') 50"]
    route_decision_table
      [where self = "sample_router 0" and request = "sample_request (str_lit ''premium'') 49"]
    route_decision_table
      [where self = "sample_router 0.5" and request = "sample_request (str_lit ''standard'') 200"]
    route_decision_table
      [where self = "sample_router 0.5" and request = "sample_request (str_lit ''gold'') 50"]
    route_decision_table
      [where self = "sample_router 0.8" and request = "sample_request (str_lit ''standard'') 3"]
  by (simp add: sample_request_def sample_router_def analyze_complexity_def length_split_ws
        word_count_sample_prompt tier_literals tier_literals [symmetric])

section \<open>Results of the provider calls\<close>

lemma infer_local_Inr:
  assumes "infer_local env self request p = Inr r"
  shows "model_used r = p \<and> is_local p \<and> cost_eur r = 0 \<and> latency_ms r = 0
         \<and> data_location r = str_lit ''on-premise''"
  using assms
  by (auto simp: infer_local_def local_model_map_def is_local_def
      split: option.splits attribute.splits sum.splits list.splits if_splits)

lemma infer_cloud_Inr:
  assumes "infer_cloud env self request p = Inr r"
  shows "model_used r = p \<and> \<not> is_local p \<and> cost_eur r = 0 \<and> latency_ms r = 0
         \<and> data_location r = str_lit ''cloud-us''"
  using assms
  by (auto simp: infer_cloud_def cloud_model_map_def is_local_def
      split: option.splits attribute.splits sum.splits list.splits if_splits)

lemma invoke_Inr:
  assumes "invoke env self request p = Inr r"
  shows "model_used r = p \<and> cost_eur r = 0
         \<and> data_location r = (if is_local p then str_lit ''on-premise'' else str_lit ''cloud-us'')"
proof (cases "is_local p")
  case True
  then have "infer_local env self request p = Inr r"
    using assms by (auto simp: invoke_def is_local_def)
  from infer_local_Inr [OF this] True show ?thesis by simp
next
  case False
  then have "infer_cloud env self request p = Inr r"
    using assms by (auto simp: invoke_def is_local_def)
  from infer_cloud_Inr [OF this] False show ?thesis by simp
qed

lemma infer_cases:
  assumes "infer env self request = Inr r"
  shows "(\<exists>r0. invoke env self request (route (router self) request) = Inr r0
            \<and> r = r0\<lparr>latency_ms := elapsed_ms env (perf_counter_start env)\<rparr>)
         \<or> ((\<exists>e. invoke env self request (route (router self) request) = Inl e)
            \<and> r = fallback_infer env request)"
  using assms by (auto simp: infer_def Let_def split: sum.splits)

lemma infer_returns: "\<exists>r. infer env self request = Inr r"
  by (simp add: infer_def Let_def split: sum.splits)

lemma location_literals:
  "str_lit ''on-premise'' \<noteq> str_lit ''cloud-us''"
  "str_lit ''on-premise'' \<noteq> str_lit ''cloud-eu''"
  "str_lit ''cloud-us'' \<noteq> str_lit ''cloud-eu''"
  "take 6 (str_lit ''on-premise'') \<noteq> str_lit ''cloud-''"
  "take 6 (str_lit ''cloud-us'') = str_lit ''cloud-''"
  by (simp_all add: str_lit_def)

lemma fallback_fields:
  "model_used (fallback_infer env request) = LOCAL_PHI4"
  "content (fallback_infer env request)
     = str_lit ''[Service temporarily unavailable - please retry]''"
  "cost_eur (fallback_infer env request) = 0"
  "tokens_in (fallback_infer env request) = 0"
  "tokens_out (fallback_infer env request) = 0"
  "data_location (fallback_infer env request) = str_lit ''on-premise''"
  by (simp_all add: fallback_infer_def)

lemma infer_trace_unfold:
  "infer_trace env self request =
     [(self, Received),
      (self, Routed (route (router self) request)),
      (self, Invoking (route (router self) request)),
      (self, case invoke env self request (route (router self) request) of
               Inr result \<Rightarrow>
                 Succeeded
                   (result\<lparr>latency_ms :=
                      elapsed_ms env (perf_counter_start env)\<rparr>)
             | Inl e \<Rightarrow> Degraded (fallback_infer env request))]"
  by (simp add: infer_trace_def numeral_3_eq_3 split: sum.splits)

lemma engine_init_router: "router (engine_init su) = \<lparr>local_load = 0\<rparr>"
  by (simp add: engine_init_def init_providers_def router_init_def)

lemma short_word_counts:
  "word_count (str_lit ''hi'') = 1"
  "word_count [] = 0"
  by (simp_all add: word_count_def str_lit_def py_isspace_def)

lemma sample_routes:
  "route \<lparr>local_load = 0\<rparr> small_request = LOCAL_PHI4"
  "route \<lparr>local_load = 0\<rparr> large_request = GROQ_LLAMA70B"
  "route \<lparr>local_load = 0\<rparr> zero_tokens_request = LOCAL_PHI4"
  "route \<lparr>local_load = 0\<rparr> empty_prompt_request = LOCAL_PHI4"
  "route \<lparr>local_load = 0\<rparr> unknown_tier_request = LOCAL_PHI4"
  by (simp_all add: route_def Let_def small_request_def large_request_def
        sample_request_def zero_tokens_request_def empty_prompt_request_def
        unknown_tier_request_def analyze_complexity_def length_split_ws
        word_count_sample_prompt short_word_counts tier_literals tier_literals [symmetric])

lemma request_id_at_0:
  "str_lit ''req_'' @ str_int (py_int 0) = str_lit ''req_0''"
  by (simp add: py_int_def str_int_def str_nat.simps [of 0] str_lit_def)

lemma full_engine_clients:
  "local_client full_engine
     = Obj \<lparr>base_url = str_lit ''http://localhost:11434/v1'', api_key = str_lit ''ollama''\<rparr>"
  "groq_client full_engine
     = Obj \<lparr>base_url = str_lit ''https://api.groq.com/openai/v1'',
            api_key = str_lit ''gsk_key''\<rparr>"
  "router full_engine = \<lparr>local_load = 0\<rparr>"
  by (simp_all add: full_engine_def engine_init_def init_providers_def full_startup_def
        router_init_def Let_def str_lit_def)

lemma local_only_engine_clients:
  "local_client local_only_engine
     = Obj \<lparr>base_url = str_lit ''http://localhost:11434/v1'', api_key = str_lit ''ollama''\<rparr>"
  "groq_client local_only_engine = PyNone"
  "router local_only_engine = \<lparr>local_load = 0\<rparr>"
  by (simp_all add: local_only_engine_def engine_init_def init_providers_def
        local_only_startup_def router_init_def Let_def)

lemma sample_infer_local:
  "infer_local ok_env full_engine request LOCAL_PHI4
     = Inr (sample_result LOCAL_PHI4 0 (str_lit ''on-premise''))"
  "infer_local ok_env full_engine request LOCAL_MISTRAL
     = Inr (sample_result LOCAL_MISTRAL 0 (str_lit ''on-premise''))"
  by (simp_all add: infer_local_def local_model_map_def full_engine_clients ok_env_def
        sample_result_def request_id_at_0)

lemma sample_infer_cloud:
  "infer_cloud ok_env full_engine request GROQ_LLAMA70B
     = Inr (sample_result GROQ_LLAMA70B 0 (str_lit ''cloud-us''))"
  "infer_cloud ok_env full_engine request GROQ_LLAMA8B
     = Inr (sample_result GROQ_LLAMA8B 0 (str_lit ''cloud-us''))"
  by (simp_all add: infer_cloud_def cloud_model_map_def full_engine_clients ok_env_def
        sample_result_def request_id_at_0)

lemma sample_infer:
  "infer ok_env full_engine small_request
     = Inr (sample_result LOCAL_PHI4 250 (str_lit ''on-premise''))"
  "infer ok_env full_engine large_request
     = Inr (sample_result GROQ_LLAMA70B 250 (str_lit ''cloud-us''))"
  "infer ok_env full_engine zero_tokens_request
     = Inr (sample_result LOCAL_PHI4 250 (str_lit ''on-premise''))"
  "infer ok_env full_engine empty_prompt_request
     = Inr (sample_result LOCAL_PHI4 250 (str_lit ''on-premise''))"
  "infer ok_env full_engine unknown_tier_request
     = Inr (sample_result LOCAL_PHI4 250 (str_lit ''on-premise''))"
  by (simp_all add: infer_def Let_def invoke_def sample_routes full_engine_clients(3)
        sample_infer_local sample_infer_cloud)
     (simp_all add: sample_result_def ok_env_def elapsed_ms_def)

section \<open>Fallback\<close>

text \<open>
  C2. Whenever the invocation of the routed provider fails, with whatever exception,
  \<open>infer\<close> does not pass the error on: it returns a result whose provider is LOCAL_PHI4,
  whose content is the unavailability marker, with cost zero, zero tokens in and out,
  and location on-premise.
\<close>

theorem infer_fallback_on_failure:
  assumes "invoke env self request (route (router self) request) = Inl e"
  shows "\<exists>r. infer env self request = Inr r
           \<and> model_used r = LOCAL_PHI4
           \<and> content r = str_lit ''[Service temporarily unavailable - please retry]''
           \<and> cost_eur r = 0 \<and> tokens_in r = 0 \<and> tokens_out r = 0
           \<and> data_location r = str_lit ''on-premise''"
proof -
  have "infer env self request = Inr (fallback_infer env request)"
    using assms by (simp add: infer_def Let_def)
  then show ?thesis
    by (simp add: fallback_fields)
qed

theorem infer_fallback_on_failure_witness:
  "invoke (failing_env APITimeoutError) full_engine small_request
      (route (router full_engine) small_request) = Inl APITimeoutError
   \<and> (\<exists>r. infer (failing_env APITimeoutError) full_engine small_request = Inr r
           \<and> model_used r = LOCAL_PHI4
           \<and> content r = str_lit ''[Service temporarily unavailable - please retry]''
           \<and> cost_eur r = 0 \<and> tokens_in r = 0 \<and> tokens_out r = 0
           \<and> data_location r = str_lit ''on-premise'')"
proof -
  have h: "invoke (failing_env APITimeoutError) full_engine small_request
             (route (router full_engine) small_request) = Inl APITimeoutError"
    by (simp add: sample_routes full_engine_clients invoke_def
          infer_local_def local_model_map_def failing_env_def)
  from infer_fallback_on_failure [OF h] h show ?thesis by simp
qed

section \<open>Requests that a validator would reject\<close>

text \<open>
  C3, as stated: a request with \<open>max_tokens\<close> at most 0, an empty prompt or an unknown tier
  is rejected with an error and neither routed nor sent to a provider. It fails on the
  code: each of the three requests below is routed to LOCAL_PHI4, the backend is called
  and its answer is returned.
\<close>

theorem infer_rejects_invalid_counterexample:
  "max_tokens zero_tokens_request \<le> 0
   \<and> infer ok_env full_engine zero_tokens_request
       = Inr (sample_result LOCAL_PHI4 250 (str_lit ''on-premise''))
   \<and> prompt empty_prompt_request = []
   \<and> infer ok_env full_engine empty_prompt_request
       = Inr (sample_result LOCAL_PHI4 250 (str_lit ''on-premise''))
   \<and> tier unknown_tier_request \<noteq> str_lit ''standard''
   \<and> tier unknown_tier_request \<noteq> str_lit ''premium''
   \<and> tier unknown_tier_request \<noteq> str_lit ''enterprise''
   \<and> infer ok_env full_engine unknown_tier_request
       = Inr (sample_result LOCAL_PHI4 250 (str_lit ''on-premise''))"
  by (simp add: sample_infer)
     (simp add: zero_tokens_request_def empty_prompt_request_def unknown_tier_request_def
        str_lit_def)

text \<open>
  C3, amended: the engine validates nothing. For every request, whatever its
  \<open>max_tokens\<close>, prompt and tier, \<open>infer\<close> computes the route, invokes the routed provider
  and returns a result, never an error: the provider's result with the measured latency
  when the invocation succeeds, and the fallback result when it fails.
\<close>

theorem infer_routes_every_request:
  "infer_trace env self request ! 1 = (self, Routed (route (router self) request))
   \<and> infer_trace env self request ! 2 = (self, Invoking (route (router self) request))
   \<and> (\<exists>r. infer env self request = Inr r
          \<and> (last (infer_trace env self request) = (self, Succeeded r)
              \<or> last (infer_trace env self request) = (self, Degraded r)))
   \<and> (invoke env self request (route (router self) request) = Inr r0 \<longrightarrow>
        infer env self request
          = Inr (r0\<lparr>latency_ms := elapsed_ms env (perf_counter_start env)\<rparr>))"
  by (cases "invoke env self request (route (router self) request)")
     (simp_all add: infer_trace_unfold infer_def Let_def)

theorem infer_routes_every_request_witness:
  "invoke ok_env full_engine zero_tokens_request (route (router full_engine) zero_tokens_request)
     = Inr (sample_result LOCAL_PHI4 0 (str_lit ''on-premise''))
   \<and> infer ok_env full_engine zero_tokens_request
       = Inr ((sample_result LOCAL_PHI4 0 (str_lit ''on-premise''))
               \<lparr>latency_ms := elapsed_ms ok_env (perf_counter_start ok_env)\<rparr>)
   \<and> infer_trace ok_env full_engine zero_tokens_request ! 2 = (full_engine, Invoking LOCAL_PHI4)"
proof -
  have h: "invoke ok_env full_engine zero_tokens_request
             (route (router full_engine) zero_tokens_request)
           = Inr (sample_result LOCAL_PHI4 0 (str_lit ''on-premise''))"
    by (simp add: sample_routes full_engine_clients(3) invoke_def sample_infer_local)
  from infer_routes_every_request
         [of ok_env full_engine zero_tokens_request
             "sample_result LOCAL_PHI4 0 (str_lit ''on-premise'')"] h
  show ?thesis
    by (simp add: sample_routes full_engine_clients(3))
qed

section \<open>Provider and location\<close>

text \<open>
  C5. Every result of a dispatch path keeps provider and location consistent: a result
  of the local call, of the cloud call, the fallback result and every result returned by
  \<open>infer\<close>. A local provider (LOCAL_PHI4, LOCAL_MISTRAL) comes with the location
  on-premise, which is no cloud location, and a cloud provider (GROQ_LLAMA70B,
  GROQ_LLAMA8B) never comes with on-premise.
\<close>

theorem result_location_consistent:
  "(infer_local env self request p = Inr r \<longrightarrow>
      model_used r \<in> {LOCAL_PHI4, LOCAL_MISTRAL} \<and> data_location r = str_lit ''on-premise'')
   \<and> (infer_cloud env self request p = Inr r \<longrightarrow>
      model_used r \<in> {GROQ_LLAMA70B, GROQ_LLAMA8B} \<and> data_location r \<noteq> str_lit ''on-premise'')
   \<and> model_used (fallback_infer env request) \<in> {LOCAL_PHI4, LOCAL_MISTRAL}
   \<and> data_location (fallback_infer env request) = str_lit ''on-premise''
   \<and> (infer env self request = Inr r \<longrightarrow>
        (model_used r \<in> {LOCAL_PHI4, LOCAL_MISTRAL} \<longrightarrow>
           data_location r = str_lit ''on-premise''
           \<and> take 6 (data_location r) \<noteq> str_lit ''cloud-'')
        \<and> (model_used r \<in> {GROQ_LLAMA70B, GROQ_LLAMA8B} \<longrightarrow>
           data_location r \<noteq> str_lit ''on-premise''))"
proof -
  have local: "model_used r \<in> {LOCAL_PHI4, LOCAL_MISTRAL} \<and> data_location r = str_lit ''on-premise''"
    if "infer_local env self request p = Inr r"
    using infer_local_Inr [OF that] by (auto simp: is_local_def)
  have cloud: "model_used r \<in> {GROQ_LLAMA70B, GROQ_LLAMA8B}
               \<and> data_location r \<noteq> str_lit ''on-premise''"
    if "infer_cloud env self request p = Inr r"
    using infer_cloud_Inr [OF that] location_literals
    by (cases p) (auto simp: is_local_def)
  have whole: "(model_used r \<in> {LOCAL_PHI4, LOCAL_MISTRAL} \<longrightarrow>
                  data_location r = str_lit ''on-premise''
                  \<and> take 6 (data_location r) \<noteq> str_lit ''cloud-'')
               \<and> (model_used r \<in> {GROQ_LLAMA70B, GROQ_LLAMA8B} \<longrightarrow>
                  data_location r \<noteq> str_lit ''on-premise'')"
    if "infer env self request = Inr r"
    using infer_cases [OF that]
  proof (elim disjE exE conjE)
    fix r0
    assume inv: "invoke env self request (route (router self) request) = Inr r0"
      and r: "r = r0\<lparr>latency_ms := elapsed_ms env (perf_counter_start env)\<rparr>"
    from invoke_Inr [OF inv] r location_literals show ?thesis
      by (auto simp: is_local_def)
  next
    fix e
    assume "r = fallback_infer env request"
    then show ?thesis
      using location_literals by (simp add: fallback_fields)
  qed
  from local cloud whole show ?thesis
    by (simp add: fallback_fields location_literals)
qed

theorem result_location_consistent_witness:
  "infer_local ok_env full_engine small_request LOCAL_MISTRAL
     = Inr (sample_result LOCAL_MISTRAL 0 (str_lit ''on-premise''))
   \<and> infer_cloud ok_env full_engine large_request GROQ_LLAMA8B
     = Inr (sample_result GROQ_LLAMA8B 0 (str_lit ''cloud-us''))
   \<and> infer ok_env full_engine small_request
     = Inr (sample_result LOCAL_PHI4 250 (str_lit ''on-premise''))
   \<and> model_used (sample_result LOCAL_PHI4 250 (str_lit ''on-premise''))
       \<in> {LOCAL_PHI4, LOCAL_MISTRAL}
   \<and> data_location (sample_result LOCAL_PHI4 250 (str_lit ''on-premise''))
       = str_lit ''on-premise''
   \<and> infer ok_env full_engine large_request
     = Inr (sample_result GROQ_LLAMA70B 250 (str_lit ''cloud-us''))
   \<and> model_used (sample_result GROQ_LLAMA70B 250 (str_lit ''cloud-us''))
       \<in> {GROQ_LLAMA70B, GROQ_LLAMA8B}
   \<and> data_location (sample_result GROQ_LLAMA70B 250 (str_lit ''cloud-us''))
       \<noteq> str_lit ''on-premise''"
  using
    result_location_consistent
      [of ok_env full_engine small_request LOCAL_MISTRAL
          "sample_result LOCAL_MISTRAL 0 (str_lit ''on-premise'')"]
    result_location_consistent
      [of ok_env full_engine large_request GROQ_LLAMA8B
          "sample_result GROQ_LLAMA8B 0 (str_lit ''cloud-us'')"]
    result_location_consistent
      [of ok_env full_engine small_request LOCAL_PHI4
          "sample_result LOCAL_PHI4 250 (str_lit ''on-premise'')"]
    result_location_consistent
      [of ok_env full_engine large_request GROQ_LLAMA70B
          "sample_result GROQ_LLAMA70B 250 (str_lit ''cloud-us'')"]
  by (simp add: sample_infer sample_infer_local sample_infer_cloud)
     (simp add: sample_result_def)

section \<open>Cost\<close>

text \<open>
  C6. Every result produced by invoking a local provider has cost exactly zero: the
  result of the local call itself, and every result of \<open>infer\<close> that names a local
  provider.
\<close>

theorem local_result_cost_zero:
  "(infer_local env self request p = Inr r \<longrightarrow> cost_eur r = 0)
   \<and> (infer env self request = Inr r \<and> model_used r \<in> {LOCAL_PHI4, LOCAL_MISTRAL}
        \<longrightarrow> cost_eur r = 0)"
proof -
  have "cost_eur r = 0" if "infer_local env self request p = Inr r"
    using infer_local_Inr [OF that] by simp
  moreover have "cost_eur r = 0" if "infer env self request = Inr r"
    using infer_cases [OF that]
  proof (elim disjE exE conjE)
    fix r0
    assume inv: "invoke env self request (route (router self) request) = Inr r0"
      and r: "r = r0\<lparr>latency_ms := elapsed_ms env (perf_counter_start env)\<rparr>"
    from invoke_Inr [OF inv] r show ?thesis by simp
  next
    assume "r = fallback_infer env request"
    then show ?thesis by (simp add: fallback_fields)
  qed
  ultimately show ?thesis by blast
qed

theorem local_result_cost_zero_witness:
  "infer_local ok_env full_engine small_request LOCAL_MISTRAL
     = Inr (sample_result LOCAL_MISTRAL 0 (str_lit ''on-premise''))
   \<and> cost_eur (sample_result LOCAL_MISTRAL 0 (str_lit ''on-premise'')) = 0
   \<and> infer ok_env full_engine small_request
     = Inr (sample_result LOCAL_PHI4 250 (str_lit ''on-premise''))
   \<and> model_used (sample_result LOCAL_PHI4 250 (str_lit ''on-premise''))
       \<in> {LOCAL_PHI4, LOCAL_MISTRAL}
   \<and> cost_eur (sample_result LOCAL_PHI4 250 (str_lit ''on-premise'')) = 0"
  using
    local_result_cost_zero
      [of ok_env full_engine small_request LOCAL_MISTRAL
          "sample_result LOCAL_MISTRAL 0 (str_lit ''on-premise'')"]
    local_result_cost_zero
      [of ok_env full_engine small_request LOCAL_PHI4
          "sample_result LOCAL_PHI4 250 (str_lit ''on-premise'')"]
  by (simp add: sample_infer sample_infer_local)
     (simp add: sample_result_def)



section \<open>The load counter\<close>

text \<open>
  C8, as stated: a dispatch routed to a local provider increments the load counter
  before the provider invocation and decrements it on every exit path. It fails on the
  code: in the dispatch below, routed to LOCAL_PHI4, the counter at the provider
  invocation is not above its value at the start.
\<close>

theorem load_incremented_counterexample:
  "snd (infer_trace ok_env full_engine small_request ! 2) = Invoking LOCAL_PHI4
   \<and> \<not> local_load (router full_engine)
         < local_load (router (fst (infer_trace ok_env full_engine small_request ! 2)))"
  by (simp add: infer_trace_unfold sample_routes full_engine_clients(3))

text \<open>
  C8, amended: no dispatch changes the load counter. It is neither incremented before
  the provider invocation nor decremented after it: in every state of a dispatch, for a
  local and for a cloud route, on success and on fallback, the counter has the value it
  had before the dispatch began, and so it has after the dispatch has completed.
\<close>

theorem dispatch_never_changes_load:
  "step env request (last (infer_trace env self request)) = None
   \<and> (\<forall>c \<in> set (infer_trace env self request).
         local_load (router (fst c)) = local_load (router self))"
  by (cases "invoke env self request (route (router self) request)")
     (simp_all add: infer_trace_unfold)

theorem dispatch_never_changes_load_witness:
  "(full_engine, Invoking LOCAL_PHI4) \<in> set (infer_trace ok_env full_engine small_request)
   \<and> local_load (router (fst (full_engine, Invoking LOCAL_PHI4)))
       = local_load (router full_engine)
   \<and> last (infer_trace ok_env full_engine small_request)
       = (full_engine, Succeeded (sample_result LOCAL_PHI4 250 (str_lit ''on-premise'')))
   \<and> step ok_env small_request (last (infer_trace ok_env full_engine small_request)) = None"
proof -
  have inv: "invoke ok_env full_engine small_request LOCAL_PHI4
               = Inr (sample_result LOCAL_PHI4 0 (str_lit ''on-premise''))"
    by (simp add: invoke_def sample_infer_local)
  have tr: "infer_trace ok_env full_engine small_request =
     [(full_engine, Received), (full_engine, Routed LOCAL_PHI4),
      (full_engine, Invoking LOCAL_PHI4),
      (full_engine, Succeeded (sample_result LOCAL_PHI4 250 (str_lit ''on-premise'')))]"
    by (simp add: infer_trace_unfold sample_routes full_engine_clients(3) inv)
       (simp add: sample_result_def ok_env_def elapsed_ms_def)
  from dispatch_never_changes_load [of ok_env small_request full_engine] tr
  show ?thesis by simp
qed

section \<open>Cloud configuration\<close>

text \<open>
  A startup without a cloud key leaves the engine without a cloud client, and every
  later cloud call fails, with a result that depends neither on the backend nor on the
  request or the provider. When the initialisation ran through (the client library could
  be imported) the cloud client is \<open>None\<close> and the call fails with the error Groq client
  not initialized, before any backend is contacted.
\<close>

lemma cloud_call_without_key:
  assumes "GROQ_API_KEY su = []"
  shows "(\<forall>c. groq_client (engine_init su) \<noteq> Obj c)
         \<and> isl (infer_cloud env (engine_init su) request p)
         \<and> infer_cloud env (engine_init su) request p
             = infer_cloud env' (engine_init su) request' p'
         \<and> (openai_importable su \<longrightarrow>
              groq_client (engine_init su) = PyNone
              \<and> infer_cloud env (engine_init su) request p
                  = Inl (RuntimeError (str_lit ''Groq client not initialized'')))"
  using assms
  by (cases "openai_importable su")
     (simp_all add: engine_init_def init_providers_def infer_cloud_def Let_def)

text \<open>
  C9. When no cloud key is available at startup, the initialisation is to record that the
  cloud provider is unavailable, and every later cloud call is to fail with the error of
  a provider that is not configured, Groq client not initialized. The code does so when
  the initialisation runs through, as at the second startup below. At the first startup
  there is no key either, and the import of the client library fails: the exception is
  caught and logged, the cloud client is never assigned, and the cloud call raises
  \<open>AttributeError\<close> when it reads the attribute, not the error of its own guard.
\<close>

theorem cloud_call_after_failed_init:
  "GROQ_API_KEY broken_startup = []
   \<and> groq_client (engine_init broken_startup) = Unset
   \<and> infer_cloud ok_env (engine_init broken_startup) large_request GROQ_LLAMA70B
       = Inl AttributeError
   \<and> GROQ_API_KEY local_only_startup = []
   \<and> groq_client (engine_init local_only_startup) = PyNone
   \<and> infer_cloud ok_env (engine_init local_only_startup) large_request GROQ_LLAMA70B
       = Inl (RuntimeError (str_lit ''Groq client not initialized''))"
  by (simp add: broken_startup_def local_only_startup_def engine_init_def init_providers_def
        infer_cloud_def Let_def)

section \<open>Cloud location\<close>

text \<open>
  C10. Every successful cloud result reports the location cloud-us, for each of the two
  cloud providers, and no result of the engine reports cloud-eu.
\<close>

theorem cloud_location_always_us:
  "(infer_cloud env self request p = Inr r \<longrightarrow> data_location r = str_lit ''cloud-us'')
   \<and> (infer env self request = Inr r \<longrightarrow>
        data_location r \<noteq> str_lit ''cloud-eu''
        \<and> (model_used r \<in> {GROQ_LLAMA70B, GROQ_LLAMA8B} \<longrightarrow>
             data_location r = str_lit ''cloud-us''))"
proof -
  have "data_location r = str_lit ''cloud-us''" if "infer_cloud env self request p = Inr r"
    using infer_cloud_Inr [OF that] by simp
  moreover have "data_location r \<noteq> str_lit ''cloud-eu''
      \<and> (model_used r \<in> {GROQ_LLAMA70B, GROQ_LLAMA8B} \<longrightarrow>
           data_location r = str_lit ''cloud-us'')"
    if "infer env self request = Inr r"
    using infer_cases [OF that]
  proof (elim disjE exE conjE)
    fix r0
    assume inv: "invoke env self request (route (router self) request) = Inr r0"
      and r: "r = r0\<lparr>latency_ms := elapsed_ms env (perf_counter_start env)\<rparr>"
    from invoke_Inr [OF inv] r location_literals show ?thesis
      by (auto simp: is_local_def)
  next
    assume "r = fallback_infer env request"
    then show ?thesis
      using location_literals by (simp add: fallback_fields)
  qed
  ultimately show ?thesis by blast
qed

theorem cloud_location_always_us_witness:
  "infer_cloud ok_env full_engine small_request GROQ_LLAMA8B
     = Inr (sample_result GROQ_LLAMA8B 0 (str_lit ''cloud-us''))
   \<and> data_location (sample_result GROQ_LLAMA8B 0 (str_lit ''cloud-us'')) = str_lit ''cloud-us''
   \<and> infer ok_env full_engine large_request
     = Inr (sample_result GROQ_LLAMA70B 250 (str_lit ''cloud-us''))
   \<and> model_used (sample_result GROQ_LLAMA70B 250 (str_lit ''cloud-us''))
       \<in> {GROQ_LLAMA70B, GROQ_LLAMA8B}
   \<and> data_location (sample_result GROQ_LLAMA70B 250 (str_lit ''cloud-us''))
       = str_lit ''cloud-us''"
  using
    cloud_location_always_us
      [of ok_env full_engine small_request GROQ_LLAMA8B
          "sample_result GROQ_LLAMA8B 0 (str_lit ''cloud-us'')"]
    cloud_location_always_us
      [of ok_env full_engine large_request GROQ_LLAMA70B
          "sample_result GROQ_LLAMA70B 250 (str_lit ''cloud-us'')"]
  by (simp add: sample_infer sample_infer_cloud)
     (simp add: sample_result_def)

end
